theory Spec2Isabelle
  imports Main "HOL-Library.Sublist" "HOL-Library.AList"
begin

section \<open>Python values\<close>

text \<open>
  Python strings are modelled as \<^typ>\<open>string\<close>; a \<^typ>\<open>char\<close> stands for a code point
  below 256. JSON-like values (the \<open>dict\<close>s the providers hand back and the envelopes the
  scripts build) are a datatype; a \<open>dict\<close> is an association list in insertion order, as
  Python keeps it. Every exception of the scripts is a subclass of \<open>Exception\<close> and carries
  its message.
\<close>

datatype json =
    JNull
  | JBool bool
  | JInt int
  | JStr string
  | JArr "json list"
  | JObj "(string \<times> json) list"

datatype exn =
    FileNotFoundError string
  | PermissionError string
  | KeyError string
  | AttributeError string
  | TypeError string
  | OSError string
  | Exception string

fun exn_str :: "exn \<Rightarrow> string" where
  "exn_str (FileNotFoundError m) = m"
| "exn_str (PermissionError m) = m"
| "exn_str (KeyError m) = m"
| "exn_str (AttributeError m) = m"
| "exn_str (TypeError m) = m"
| "exn_str (OSError m) = m"
| "exn_str (Exception m) = m"

text \<open>Truthiness of a dict (\<open>if page_json:\<close>) and of a string (\<open>if page_text:\<close>).\<close>

fun truthy_json :: "json \<Rightarrow> bool" where
  "truthy_json JNull = False"
| "truthy_json (JBool b) = b"
| "truthy_json (JInt n) = (n \<noteq> 0)"
| "truthy_json (JStr s) = (s \<noteq> [])"
| "truthy_json (JArr xs) = (xs \<noteq> [])"
| "truthy_json (JObj kvs) = (kvs \<noteq> [])"

definition truthy_str_opt :: "string option \<Rightarrow> bool" where
  "truthy_str_opt t = (case t of None \<Rightarrow> False | Some s \<Rightarrow> s \<noteq> [])"

subsection \<open>String methods\<close>

text \<open>\<open>str.isspace\<close> on code points below 256, and \<open>str.strip()\<close>.\<close>

definition py_isspace :: "char \<Rightarrow> bool" where
  "py_isspace c = (of_char c \<in> set [9, 10, 11, 12, 13, 28, 29, 30, 31, 32, 133, 160 :: nat])"

definition py_lstrip :: "string \<Rightarrow> string" where
  "py_lstrip s = dropWhile py_isspace s"

definition py_rstrip :: "string \<Rightarrow> string" where
  "py_rstrip s = rev (dropWhile py_isspace (rev s))"

definition py_strip :: "string \<Rightarrow> string" where
  "py_strip s = py_lstrip (py_rstrip s)"

text \<open>\<open>s.endswith(t)\<close>, and the slice \<open>s[:-n]\<close> for a positive \<open>n\<close>.\<close>

definition py_endswith :: "string \<Rightarrow> string \<Rightarrow> bool" where
  "py_endswith s t = suffix t s"

definition slice_off_end :: "string \<Rightarrow> nat \<Rightarrow> string" where
  "slice_off_end s n = take (length s - n) s"

text \<open>\<open>sep.join(parts)\<close>.\<close>

fun py_join :: "string \<Rightarrow> string list \<Rightarrow> string" where
  "py_join sep [] = []"
| "py_join sep [p] = p"
| "py_join sep (p # q # ps) = p @ sep @ py_join sep (q # ps)"

text \<open>\<open>s.split("/")[-1]\<close>: what follows the last slash, the whole string when there is none.\<close>

definition last_segment :: "string \<Rightarrow> string" where
  "last_segment s = rev (takeWhile (\<lambda>c. c \<noteq> CHR ''/'') (rev s))"

text \<open>\<open>str.lower()\<close> on code points below 256.\<close>

definition py_lower_char :: "char \<Rightarrow> char" where
  "py_lower_char c =
     (let n = (of_char c :: nat)
      in if (65 \<le> n \<and> n \<le> 90) \<or> (192 \<le> n \<and> n \<le> 222 \<and> n \<noteq> 215)
         then char_of (n + 32) else c)"

definition py_lower :: "string \<Rightarrow> string" where
  "py_lower s = map py_lower_char s"


section \<open>azure-gcp-vision-extractor.py\<close>

definition SUPPORTED_IMAGE_EXTENSIONS :: "string list" where
  "SUPPORTED_IMAGE_EXTENSIONS =
     [''.png'', ''.jpg'', ''.jpeg'', ''.bmp'', ''.tiff'', ''.tif'', ''.gif'', ''.webp'']"

definition SUPPORTED_PDF_EXTENSION :: string where
  "SUPPORTED_PDF_EXTENSION = ''.pdf''"

definition PAGE_BREAK :: string where
  "PAGE_BREAK = ''--- Page Break ---''"

definition PAGE_SEP :: string where
  "PAGE_SEP = ''\<newline>\<newline>--- Page Break ---\<newline>\<newline>''"

subsection \<open>The Azure Read adapter\<close>

text \<open>
  What the adapter reads of a \<open>ReadOperationResult\<close>: its status, as the string it
  compares equal to (\<open>ror_status\<close>) and as an f-string prints it (\<open>ror_status_str\<close>:
  for a member of the SDK's \<open>OperationStatusCodes\<close> that depends on the Python version,
  \<open>failed\<close> or \<open>OperationStatusCodes.failed\<close>), its \<open>message\<close> attribute (absent when
  the object has none), its \<open>analyze_result\<close> (the text lines of each page, and the
  printed form of \<open>errors\<close> when that attribute is there and truthy) and \<open>as_dict()\<close>.
\<close>

record analyze_results =
  read_results :: "string list list"
  ar_errors :: "string option"

record read_operation_result =
  ror_status :: string
  ror_status_str :: string
  ror_message :: "string option"
  analyze_result :: "analyze_results option"
  ror_as_dict :: "(string \<times> json) list"

text \<open>
  The client: \<open>read_in_stream\<close> answers with the response headers or raises;
  \<open>get_read_result operation_id n\<close> is the answer to the \<open>n\<close>-th status request
  (counted from 0) for that operation, or the exception it raises.
\<close>

record azure_client =
  read_in_stream :: "string \<Rightarrow> exn + (string \<times> string) list"
  get_read_result :: "string \<Rightarrow> nat \<Rightarrow> exn + read_operation_result"

text \<open>The adapter's observable steps: a status request, and \<open>time.sleep(d)\<close>.\<close>

datatype event = StatusCheck | Sleep nat

definition in_progress :: "string \<Rightarrow> bool" where
  "in_progress st = (st \<in> set [''notStarted'', ''running''])"

text \<open>
  The \<open>while True\<close> loop of \<open>ocr_azure_read_stream\<close>. It has no bound: a provider that stays
  in progress keeps it running, which is the value \<open>None\<close> here.
\<close>

partial_function (option) poll_read_result ::
  "(nat \<Rightarrow> exn + read_operation_result) \<Rightarrow> nat \<Rightarrow> event list
     \<Rightarrow> ((exn + read_operation_result) \<times> event list) option" where
  "poll_read_result get n tr =
     (case get n of
        Inl e \<Rightarrow> Some (Inl e, tr @ [StatusCheck])
      | Inr r \<Rightarrow>
          if in_progress (ror_status r)
          then poll_read_result get (Suc n) (tr @ [StatusCheck, Sleep 2])
          else Some (Inr r, tr @ [StatusCheck]))"

declare poll_read_result.simps [code]

definition azure_page_text :: "string list \<Rightarrow> string" where
  "azure_page_text lines =
     concat (map (\<lambda>l. l @ ''\<newline>'') lines) @ ''\<newline>--- Page Break ---\<newline>\<newline>''"

definition azure_text :: "analyze_results \<Rightarrow> string" where
  "azure_text ar =
     (let text_content = concat (map azure_page_text (read_results ar))
      in if text_content \<noteq> []
         then py_strip (slice_off_end text_content (length PAGE_SEP))
         else text_content)"

definition azure_success ::
  "read_operation_result \<Rightarrow> exn + (string option \<times> json option)" where
  "azure_success r =
     (case analyze_result r of
        None \<Rightarrow> Inl (AttributeError ''NoneType object has no attribute read_results'')
      | Some ar \<Rightarrow> Inr (Some (azure_text ar), Some (JObj (ror_as_dict r))))"

definition azure_error_message :: "string \<Rightarrow> read_operation_result \<Rightarrow> string" where
  "azure_error_message original_filename r =
     (let error_message =
            ''Azure Read API failed for '' @ original_filename @ '': '' @ ror_status_str r;
          error_message =
            (case ror_message r of
               None \<Rightarrow> error_message
             | Some m \<Rightarrow> if m \<noteq> [] then error_message @ '' - Message: '' @ m else error_message);
          error_message =
            (case analyze_result r of
               None \<Rightarrow> error_message
             | Some ar \<Rightarrow>
                 (case ar_errors ar of
                    None \<Rightarrow> error_message
                  | Some errs \<Rightarrow> error_message @ '' - API Errors: '' @ errs))
      in error_message)"

definition azure_failure ::
  "string \<Rightarrow> read_operation_result \<Rightarrow> string option \<times> json option" where
  "azure_failure original_filename r =
     (None, Some (JObj [(''error'', JStr (azure_error_message original_filename r)),
                        (''details'', JObj (ror_as_dict r))]))"

text \<open>
  The body of the \<open>try\<close> block of \<open>ocr_azure_read_stream\<close>: \<open>Inl\<close> is an exception
  raised inside it, \<open>None\<close> a loop that never ends.
\<close>

definition ocr_azure_read_stream_try ::
  "azure_client \<Rightarrow> string \<Rightarrow> string
     \<Rightarrow> ((exn + (string option \<times> json option)) \<times> event list) option" where
  "ocr_azure_read_stream_try client stream original_filename =
     (case read_in_stream client stream of
        Inl e \<Rightarrow> Some (Inl e, [])
      | Inr headers \<Rightarrow>
          (case map_of headers ''Operation-Location'' of
             None \<Rightarrow> Some (Inl (KeyError ''Operation-Location''), [])
           | Some operation_location \<Rightarrow>
               (case poll_read_result
                       (get_read_result client (last_segment operation_location)) 0 [] of
                  None \<Rightarrow> None
                | Some (Inl e, tr) \<Rightarrow> Some (Inl e, tr)
                | Some (Inr read_result, tr) \<Rightarrow>
                    if ror_status read_result = ''succeeded''
                    then Some (azure_success read_result, tr)
                    else Some (Inr (azure_failure original_filename read_result), tr))))"

text \<open>
  \<open>ocr_azure_read_stream\<close>: \<open>(None, None)\<close> without a client, and for every exception
  of the \<open>try\<close> block (\<open>except Exception\<close>).
\<close>

definition ocr_azure_read_stream ::
  "azure_client option \<Rightarrow> string \<Rightarrow> string
     \<Rightarrow> ((string option \<times> json option) \<times> event list) option" where
  "ocr_azure_read_stream client stream original_filename =
     (case client of
        None \<Rightarrow> Some ((None, None), [])
      | Some c \<Rightarrow>
          (case ocr_azure_read_stream_try c stream original_filename of
             None \<Rightarrow> None
           | Some (Inl e, tr) \<Rightarrow> Some ((None, None), tr)
           | Some (Inr res, tr) \<Rightarrow> Some (res, tr)))"

text \<open>The steps of a polling run that ends at its \<open>k\<close>-th status request.\<close>

definition polling_trace :: "nat \<Rightarrow> event list" where
  "polling_trace k = concat (replicate (k - 1) [StatusCheck, Sleep 2]) @ [StatusCheck]"

subsection \<open>Paths\<close>

text \<open>
  \<open>s.rfind(c)\<close>: the index of the last \<open>c\<close>, \<open>-1\<close> when there is none.
\<close>

definition py_rfind :: "string \<Rightarrow> char \<Rightarrow> int" where
  "py_rfind s c =
     (if c \<in> set s then int (length s) - 1 - int (length (takeWhile (\<lambda>x. x \<noteq> c) (rev s)))
      else - 1)"

text \<open>
  The attributes \<open>name\<close>, \<open>suffix\<close> and \<open>stem\<close> of a \<open>pathlib.Path\<close>, computed from
  the string \<open>str(path)\<close> that pathlib prints (normalised, so the name is what follows
  the last slash).
\<close>

definition path_name :: "string \<Rightarrow> string" where
  "path_name p = last_segment p"

definition path_suffix :: "string \<Rightarrow> string" where
  "path_suffix p =
     (let name = path_name p; i = py_rfind name (CHR ''.'')
      in if 0 < i \<and> i < int (length name) - 1 then drop (nat i) name else [])"

definition path_stem :: "string \<Rightarrow> string" where
  "path_stem p =
     (let name = path_name p; i = py_rfind name (CHR ''.'')
      in if 0 < i \<and> i < int (length name) - 1 then take (nat i) name else name)"

text \<open>\<open>s.split(c)\<close> for a separator of one character.\<close>

fun py_split :: "char \<Rightarrow> string \<Rightarrow> string list" where
  "py_split c [] = [[]]"
| "py_split c (x # xs) =
     (if x = c then [] # py_split c xs
      else (case py_split c xs of [] \<Rightarrow> [[x]] | p # ps \<Rightarrow> (x # p) # ps))"

text \<open>
  \<open>posixpath.join(a, b)\<close> and \<open>posixpath.splitroot(p)\<close> (root and rest; a POSIX path has
  no drive).
\<close>

definition posixpath_join :: "string \<Rightarrow> string \<Rightarrow> string" where
  "posixpath_join a b =
     (if take 1 b = ''/'' then b
      else if a = [] \<or> last a = CHR ''/'' then a @ b
      else a @ ''/'' @ b)"

definition posixpath_splitroot :: "string \<Rightarrow> string \<times> string" where
  "posixpath_splitroot p =
     (if take 1 p \<noteq> ''/'' then ([], p)
      else if take 1 (drop 1 p) \<noteq> ''/'' \<or> take 1 (drop 2 p) = ''/'' then (''/'', drop 1 p)
      else (''//'', drop 2 p))"

text \<open>
  \<open>str(PurePosixPath(p))\<close>: the root, then the components that are neither empty nor
  \<open>.\<close>, joined by slashes; \<open>.\<close> when nothing is left.
\<close>

definition pathlib_str :: "string \<Rightarrow> string" where
  "pathlib_str p =
     (case posixpath_splitroot p of
        (root, rel) \<Rightarrow>
          (let tail = filter (\<lambda>x. x \<noteq> [] \<and> x \<noteq> ''.'') (py_split (CHR ''/'') rel);
               s = root @ py_join ''/'' tail
           in if s = [] then ''.'' else s))"

text \<open>\<open>str(Path(output_dir) / base)\<close>, for any two strings.\<close>

definition path_join :: "string \<Rightarrow> string \<Rightarrow> string" where
  "path_join d b = pathlib_str (posixpath_join d b)"

text \<open>
  \<open>datetime.now().strftime("%Y%m%d-%H%M%S")\<close>: the fields of the moment, in decimal
  digits of fixed width (four for a year from 1000 on), most significant first.
\<close>

record datetime =
  dt_year :: nat
  dt_month :: nat
  dt_day :: nat
  dt_hour :: nat
  dt_minute :: nat
  dt_second :: nat

definition digit_char :: "nat \<Rightarrow> char" where
  "digit_char d = char_of (48 + d)"

definition pad2 :: "nat \<Rightarrow> string" where
  "pad2 n = [digit_char (n div 10 mod 10), digit_char (n mod 10)]"

definition pad4 :: "nat \<Rightarrow> string" where
  "pad4 n = [digit_char (n div 1000 mod 10), digit_char (n div 100 mod 10),
             digit_char (n div 10 mod 10), digit_char (n mod 10)]"

definition strftime_stamp :: "datetime \<Rightarrow> string" where
  "strftime_stamp now =
     pad4 (dt_year now) @ pad2 (dt_month now) @ pad2 (dt_day now) @ ''-''
       @ pad2 (dt_hour now) @ pad2 (dt_minute now) @ pad2 (dt_second now)"

text \<open>The decimal digits of a number, as an f-string prints it.\<close>

fun show_nat :: "nat \<Rightarrow> string" where
  "show_nat n =
     (if n < 10 then [char_of (48 + n)] else show_nat (n div 10) @ [char_of (48 + n mod 10)])"

declare show_nat.simps [simp del]

subsection \<open>The Google Vision adapter\<close>

text \<open>
  What the adapter reads of an \<open>AnnotateImageResponse\<close>: \<open>error.message\<close>, the text of
  \<open>full_text_annotation\<close> (\<open>None\<close> when the annotation is falsy), the page number of its
  context when it has one, and \<open>MessageToDict(response._pb)\<close>.
\<close>

record annotate_image_response =
  resp_error_message :: string
  full_text_annotation :: "string option"
  context_page_number :: "int option"
  pb_dict :: "(string \<times> json) list"

text \<open>
  The client: \<open>document_text_detection\<close> on image bytes, and for a PDF the responses of
  the finished \<open>async_batch_annotate_files\<close> operation (one list of page responses per
  file); either may raise.
\<close>

record google_client =
  document_text_detection :: "string \<Rightarrow> exn + annotate_image_response"
  async_batch_annotate_files :: "string \<Rightarrow> exn + annotate_image_response list list"

definition ocr_google_image_bytes_try ::
  "google_client \<Rightarrow> string \<Rightarrow> exn + (string option \<times> json option)" where
  "ocr_google_image_bytes_try client image_bytes =
     (case document_text_detection client image_bytes of
        Inl e \<Rightarrow> Inl e
      | Inr response \<Rightarrow>
          if resp_error_message response \<noteq> []
          then Inl (Exception (resp_error_message response))
          else Inr (Some (case full_text_annotation response of Some t \<Rightarrow> t | None \<Rightarrow> []),
                    Some (JObj (pb_dict response))))"

definition ocr_google_image_bytes ::
  "google_client option \<Rightarrow> string \<Rightarrow> string \<Rightarrow> string option \<times> json option" where
  "ocr_google_image_bytes client image_bytes original_filename =
     (case client of
        None \<Rightarrow> (None, None)
      | Some c \<Rightarrow>
          (case ocr_google_image_bytes_try c image_bytes of
             Inl e \<Rightarrow> (None, None)
           | Inr res \<Rightarrow> res))"

text \<open>
  The \<open>for i, image_response in enumerate(...)\<close> loop of \<open>ocr_google_pdf\<close>:
  \<open>google_page_json i\<close> is the dict appended for the response at index \<open>i\<close>.
\<close>

definition google_page_json :: "nat \<Rightarrow> annotate_image_response \<Rightarrow> json" where
  "google_page_json i image_response =
     (let page_json_dict =
            AList.update ''page_number_from_ocr_iteration'' (JInt (int i + 1))
              (pb_dict image_response);
          page_json_dict =
            (case context_page_number image_response of
               None \<Rightarrow> page_json_dict
             | Some n \<Rightarrow> AList.update ''page_number_from_api'' (JInt n) page_json_dict)
      in JObj page_json_dict)"

fun google_pdf_pages ::
  "nat \<Rightarrow> annotate_image_response list \<Rightarrow> string \<Rightarrow> json list \<Rightarrow> string \<times> json list" where
  "google_pdf_pages i [] all_text pages = (all_text, pages)"
| "google_pdf_pages i (image_response # rest) all_text pages =
     google_pdf_pages (i + 1) rest
       (case full_text_annotation image_response of
          None \<Rightarrow> all_text
        | Some page_text \<Rightarrow> all_text @ page_text @ PAGE_SEP)
       (pages @ [google_page_json i image_response])"

definition trim_page_break :: "string \<Rightarrow> string" where
  "trim_page_break t =
     (if t \<noteq> []
      then (let t = py_strip t
            in if py_endswith t PAGE_BREAK
               then py_strip (slice_off_end t (length PAGE_BREAK)) else t)
      else t)"

text \<open>
  The world outside the scripts: reading a file (\<open>open(path, 'rb').read()\<close>), rasterising
  a PDF (\<open>convert_from_path\<close>), encoding a page image as PNG
  (\<open>convert_pil_image_to_bytes\<close>), each of which may raise, and the exception, if any,
  that \<open>open(path, 'w')\<close> raises (\<open>open_w\<close>) and that writing a content into the opened
  file raises (\<open>write_w\<close>).
\<close>

datatype image = Image string

datatype file_content = TextFile string | JsonFile json | Truncated

record world =
  open_rb :: "string \<Rightarrow> exn + string"
  convert_from_path :: "string \<Rightarrow> exn + image list"
  convert_pil_image_to_bytes :: "image \<Rightarrow> exn + string"
  open_w :: "string \<Rightarrow> exn option"
  write_w :: "string \<Rightarrow> file_content \<Rightarrow> exn option"

definition ocr_google_pdf_try ::
  "world \<Rightarrow> google_client \<Rightarrow> string \<Rightarrow> exn + (string option \<times> json option)" where
  "ocr_google_pdf_try w client pdf_path =
     (case open_rb w pdf_path of
        Inl e \<Rightarrow> Inl e
      | Inr pdf_content \<Rightarrow>
          (case async_batch_annotate_files client pdf_content of
             Inl e \<Rightarrow> Inl e
           | Inr responses \<Rightarrow>
               (let pdf_filename = path_name pdf_path
                in case responses of
                     [] \<Rightarrow> Inr (None, Some (JObj [(''error'',
                              JStr (''No responses from Google PDF processing for '' @ pdf_filename))]))
                   | file_response # _ \<Rightarrow>
                       (case google_pdf_pages 0 file_response [] [] of
                          (all_text, full_json_response_pages) \<Rightarrow>
                            Inr (Some (trim_page_break all_text),
                                 Some (JObj [(''pages'', JArr full_json_response_pages),
                                             (''source_file'', JStr pdf_filename)]))))))"

definition ocr_google_pdf ::
  "world \<Rightarrow> google_client option \<Rightarrow> string \<Rightarrow> string option \<times> json option" where
  "ocr_google_pdf w client pdf_path =
     (case client of
        None \<Rightarrow> (None, None)
      | Some c \<Rightarrow>
          (case ocr_google_pdf_try w c pdf_path of
             Inl e \<Rightarrow> (None, None)
           | Inr res \<Rightarrow> res))"

subsection \<open>The output writer\<close>

text \<open>
  The files written so far, and the paths on which \<open>open(path, 'w')\<close> was called, in
  order. A JSON file holds the value that \<open>json.dump\<close> was given; \<open>Truncated\<close> is a
  file that was opened for writing and whose write did not complete, so that it is empty
  or cut short.
\<close>

record fs_state =
  files :: "string \<rightharpoonup> file_content"
  opened :: "string list"

text \<open>
  \<open>with open(path, 'w') as f:\<close> followed by the write of \<open>content\<close>: the state left, and
  the exception raised if any. The \<open>open\<close> creates or empties the file; a failed
  \<open>open\<close> still counts as an attempt on that path.
\<close>

definition write_file ::
  "(string \<Rightarrow> exn option) \<Rightarrow> (string \<Rightarrow> file_content \<Rightarrow> exn option) \<Rightarrow> string
     \<Rightarrow> file_content \<Rightarrow> fs_state \<Rightarrow> fs_state \<times> exn option" where
  "write_file opn wrt path content fs =
     (case opn path of
        Some e \<Rightarrow> (fs\<lparr>opened := opened fs @ [path]\<rparr>, Some e)
      | None \<Rightarrow>
          (case wrt path content of
             Some e \<Rightarrow>
               (fs\<lparr>files := (files fs)(path \<mapsto> Truncated), opened := opened fs @ [path]\<rparr>,
                Some e)
           | None \<Rightarrow>
               (fs\<lparr>files := (files fs)(path \<mapsto> content), opened := opened fs @ [path]\<rparr>,
                None)))"

text \<open>\<open>save_results\<close>: the state it leaves, and the exception it raises if any.\<close>

definition save_results ::
  "world \<Rightarrow> string \<Rightarrow> string \<Rightarrow> json \<Rightarrow> fs_state \<Rightarrow> fs_state \<times> exn option" where
  "save_results w output_base_filepath_stem text_content json_content fs =
     (let txt_path = output_base_filepath_stem @ ''.txt'';
          json_path = output_base_filepath_stem @ ''.json''
      in case write_file (open_w w) (write_w w) txt_path (TextFile text_content) fs of
           (fs1, Some e) \<Rightarrow> (fs1, Some e)
         | (fs1, None) \<Rightarrow>
             write_file (open_w w) (write_w w) json_path (JsonFile json_content) fs1)"

subsection \<open>Processing one file\<close>

text \<open>One page of the forced conversion: lines 224 to 234 of \<open>process_file\<close>.\<close>

definition ocr_pdf_page ::
  "world \<Rightarrow> string \<Rightarrow> google_client option \<Rightarrow> azure_client option \<Rightarrow> string \<Rightarrow> nat \<Rightarrow> image
     \<Rightarrow> (exn + (string option \<times> json option)) option" where
  "ocr_pdf_page w api_choice google_client azure_client original_filename_stem page_num pil_image =
     (case convert_pil_image_to_bytes w pil_image of
        Inl e \<Rightarrow> Some (Inl e)
      | Inr img_bytes \<Rightarrow>
          (let page_filename_for_api =
                 original_filename_stem @ ''_page_'' @ show_nat page_num @ ''.png''
           in if api_choice = ''google''
              then (case google_client of
                      None \<Rightarrow> Some (Inr (None, None))
                    | Some _ \<Rightarrow>
                        Some (Inr (ocr_google_image_bytes google_client img_bytes
                                     page_filename_for_api)))
              else if api_choice = ''azure''
              then (case azure_client of
                      None \<Rightarrow> Some (Inr (None, None))
                    | Some _ \<Rightarrow>
                        (case ocr_azure_read_stream azure_client img_bytes
                                page_filename_for_api of
                           None \<Rightarrow> None
                         | Some (res, tr) \<Rightarrow> Some (Inr res)))
              else Some (Inr (None, None))))"

text \<open>
  The page loop: \<open>i\<close> is the index \<open>enumerate\<close> gives the next image. A page's text is
  appended when it is truthy, and so is its JSON, wrapped with the page number.
\<close>

fun pdf_pages_loop ::
  "(nat \<Rightarrow> image \<Rightarrow> (exn + (string option \<times> json option)) option) \<Rightarrow> nat \<Rightarrow> image list
     \<Rightarrow> string list \<Rightarrow> json list \<Rightarrow> (exn + (string list \<times> json list)) option" where
  "pdf_pages_loop ocr i [] all_text_parts all_json_responses_parts =
     Some (Inr (all_text_parts, all_json_responses_parts))"
| "pdf_pages_loop ocr i (pil_image # rest) all_text_parts all_json_responses_parts =
     (case ocr (i + 1) pil_image of
        None \<Rightarrow> None
      | Some (Inl e) \<Rightarrow> Some (Inl e)
      | Some (Inr (page_text, page_json)) \<Rightarrow>
          pdf_pages_loop ocr (i + 1) rest
            (case page_text of
               None \<Rightarrow> all_text_parts
             | Some t \<Rightarrow> if t \<noteq> [] then all_text_parts @ [t] else all_text_parts)
            (case page_json of
               None \<Rightarrow> all_json_responses_parts
             | Some j \<Rightarrow>
                 if truthy_json j
                 then all_json_responses_parts @
                        [JObj [(''page'', JInt (int (i + 1))), (''response'', j)]]
                 else all_json_responses_parts))"

definition merge_page_texts :: "string list \<Rightarrow> string" where
  "merge_page_texts all_text_parts = trim_page_break (py_join PAGE_SEP all_text_parts)"

text \<open>The \<open>try\<close> block of the forced conversion: lines 220 to 243.\<close>

definition pdf_to_images_try ::
  "world \<Rightarrow> string \<Rightarrow> google_client option \<Rightarrow> azure_client option \<Rightarrow> string
     \<Rightarrow> (exn + (string \<times> json)) option" where
  "pdf_to_images_try w api_choice google_client azure_client file_path_str =
     (case convert_from_path w file_path_str of
        Inl e \<Rightarrow> Some (Inl e)
      | Inr images_from_path \<Rightarrow>
          (case pdf_pages_loop
                  (ocr_pdf_page w api_choice google_client azure_client (path_stem file_path_str))
                  0 images_from_path [] [] of
             None \<Rightarrow> None
           | Some (Inl e) \<Rightarrow> Some (Inl e)
           | Some (Inr (all_text_parts, all_json_responses_parts)) \<Rightarrow>
               Some (Inr (merge_page_texts all_text_parts,
                          JObj [(''pages'', JArr all_json_responses_parts),
                                (''source_file'', JStr (path_name file_path_str)),
                                (''method'', JStr ''pdf_converted_to_images'')]))))"

text \<open>
  How a call of \<open>process_file\<close> ends when it returns: each value stands for one of its
  \<open>return\<close> statements or for the end of the function.
\<close>

datatype outcome =
    Unsupported
  | UnknownApi
  | ConversionFailed
  | ImageNotFound
  | ImageFailed
  | Saved
  | NoResults

text \<open>Lines 269 to 281: save when both the text and the JSON are not \<open>None\<close>.\<close>

definition save_if_present ::
  "world \<Rightarrow> string \<Rightarrow> string \<Rightarrow> string \<Rightarrow> string \<Rightarrow> string option \<times> json option \<Rightarrow> fs_state
     \<Rightarrow> fs_state \<times> (exn + outcome)" where
  "save_if_present w timestamp_str output_dir original_filename_stem api_choice res fs =
     (case res of
        (Some text_content, Some json_response) \<Rightarrow>
          (case save_results w
                  (path_join output_dir
                     (original_filename_stem @ ''_'' @ api_choice @ ''_'' @ timestamp_str))
                  text_content json_response fs of
             (fs', Some e) \<Rightarrow> (fs', Inl e)
           | (fs', None) \<Rightarrow> (fs', Inr Saved))
      | _ \<Rightarrow> (fs, Inr NoResults))"

text \<open>
  \<open>process_file\<close>. \<open>timestamp_str\<close> is what \<open>datetime.now().strftime("%Y%m%d-%H%M%S")\<close>
  gives during the call. The result is the state of the files and either the exception
  that leaves the function or the way it returned; \<open>None\<close> when it never returns.
\<close>

definition process_file ::
  "world \<Rightarrow> string \<Rightarrow> string \<Rightarrow> string \<Rightarrow> string \<Rightarrow> google_client option \<Rightarrow> azure_client option
     \<Rightarrow> bool \<Rightarrow> fs_state \<Rightarrow> (fs_state \<times> (exn + outcome)) option" where
  "process_file w timestamp_str file_path_str output_dir api_choice google_client azure_client
       force_pdf_to_images fs =
     (let original_filename_stem = path_stem file_path_str;
          file_ext = py_lower (path_suffix file_path_str);
          is_pdf = (file_ext = SUPPORTED_PDF_EXTENSION);
          is_image = (file_ext \<in> set SUPPORTED_IMAGE_EXTENSIONS);
          finish = (\<lambda>res. Some (save_if_present w timestamp_str output_dir
                                   original_filename_stem api_choice res fs))
      in if \<not> (is_pdf \<or> is_image) then Some (fs, Inr Unsupported)
         else if is_pdf \<and> \<not> force_pdf_to_images then
           (if api_choice = ''google'' then
              (case google_client of
                 None \<Rightarrow> finish (None, None)
               | Some _ \<Rightarrow> finish (ocr_google_pdf w google_client file_path_str))
            else if api_choice = ''azure'' then
              (case azure_client of
                 None \<Rightarrow> finish (None, None)
               | Some _ \<Rightarrow>
                   (case open_rb w file_path_str of
                      Inl e \<Rightarrow> Some (fs, Inl e)
                    | Inr f_pdf \<Rightarrow>
                        (case ocr_azure_read_stream azure_client f_pdf
                                (path_name file_path_str) of
                           None \<Rightarrow> None
                         | Some (res, tr) \<Rightarrow> finish res)))
            else Some (fs, Inr UnknownApi))
         else if is_pdf \<and> force_pdf_to_images then
           (case pdf_to_images_try w api_choice google_client azure_client file_path_str of
              None \<Rightarrow> None
            | Some (Inl e) \<Rightarrow> Some (fs, Inr ConversionFailed)
            | Some (Inr (text_content, json_response)) \<Rightarrow>
                finish (Some text_content, Some json_response))
         else
           (case open_rb w file_path_str of
              Inl (FileNotFoundError m) \<Rightarrow> Some (fs, Inr ImageNotFound)
            | Inl e \<Rightarrow> Some (fs, Inr ImageFailed)
            | Inr image_bytes \<Rightarrow>
                if api_choice = ''google'' then
                  (case google_client of
                     None \<Rightarrow> finish (None, None)
                   | Some _ \<Rightarrow>
                       finish (ocr_google_image_bytes google_client image_bytes
                                 (path_name file_path_str)))
                else if api_choice = ''azure'' then
                  (case azure_client of
                     None \<Rightarrow> finish (None, None)
                   | Some _ \<Rightarrow>
                       (case ocr_azure_read_stream azure_client image_bytes
                               (path_name file_path_str) of
                          None \<Rightarrow> None
                        | Some (res, tr) \<Rightarrow> finish res))
                else Some (fs, Inr UnknownApi)))"

text \<open>
  The loop of \<open>main\<close> over \<open>files_to_process\<close>: \<open>clock i\<close> is the timestamp read while
  the \<open>i\<close>-th file is processed. An exception that leaves \<open>process_file\<close> leaves the loop.
\<close>

fun process_files ::
  "world \<Rightarrow> (nat \<Rightarrow> string) \<Rightarrow> nat \<Rightarrow> string list \<Rightarrow> string \<Rightarrow> string \<Rightarrow> google_client option
     \<Rightarrow> azure_client option \<Rightarrow> bool \<Rightarrow> fs_state \<Rightarrow> (fs_state \<times> (exn + outcome list)) option" where
  "process_files w clock i [] output_dir api google_client azure_client force fs =
     Some (fs, Inr [])"
| "process_files w clock i (file_to_process # rest) output_dir api google_client azure_client
       force fs =
     (case process_file w (clock i) file_to_process output_dir api google_client azure_client
             force fs of
        None \<Rightarrow> None
      | Some (fs', Inl e) \<Rightarrow> Some (fs', Inl e)
      | Some (fs', Inr out) \<Rightarrow>
          (case process_files w clock (i + 1) rest output_dir api google_client azure_client
                  force fs' of
             None \<Rightarrow> None
           | Some (fs'', Inl e) \<Rightarrow> Some (fs'', Inl e)
           | Some (fs'', Inr outs) \<Rightarrow> Some (fs'', Inr (out # outs))))"

section \<open>Functions of \<open>os.path\<close>\<close>

text \<open>\<open>posixpath.basename\<close> and \<open>posixpath.splitext\<close>.\<close>

definition os_path_basename :: "string \<Rightarrow> string" where
  "os_path_basename p = last_segment p"

definition os_path_splitext :: "string \<Rightarrow> string \<times> string" where
  "os_path_splitext p =
     (let sepIndex = py_rfind p (CHR ''/'');
          dotIndex = py_rfind p (CHR ''.'')
      in if dotIndex > sepIndex
            \<and> list_ex (\<lambda>k. p ! k \<noteq> CHR ''.'') [nat (sepIndex + 1) ..< nat dotIndex]
         then (take (nat dotIndex) p, drop (nat dotIndex) p)
         else (p, []))"

section \<open>multi_extractor.py\<close>

text \<open>
  \<open>str.upper()\<close> on code points below 256. Three of them (\<open>0xB5\<close>, \<open>0xDF\<close>, \<open>0xFF\<close>) have
  an upper case outside that range and are left as they are; none of the strings
  \<open>get_mime_type\<close> compares with can come from them.
\<close>

definition py_upper_char :: "char \<Rightarrow> char" where
  "py_upper_char c =
     (let n = (of_char c :: nat)
      in if (97 \<le> n \<and> n \<le> 122) \<or> (224 \<le> n \<and> n \<le> 254 \<and> n \<noteq> 247)
         then char_of (n - 32) else c)"

definition py_upper :: "string \<Rightarrow> string" where
  "py_upper s = map py_upper_char s"

text \<open>
  The world of \<open>multi_extractor.py\<close>: \<open>os.name\<close>, \<open>mimetypes.guess_type\<close>,
  \<open>base64.b64encode\<close>, \<open>convert_from_path\<close> (with the \<open>poppler_path\<close> it is given, if
  any, and the format), \<open>pil_image.save\<close> into a buffer, and the three providers' calls.
  A provider call gives the text of the answer, \<open>None\<close> for an answer without content, or
  raises.
\<close>

record ai_world =
  os_name :: string
  guess_type :: "string \<Rightarrow> string option"
  b64encode :: "string \<Rightarrow> string"
  pdf2image_convert :: "string \<Rightarrow> string option \<Rightarrow> string \<Rightarrow> exn + image list"
  pil_save :: "image \<Rightarrow> string \<Rightarrow> exn + string"
  gemini_generate_content :: "string \<Rightarrow> image \<Rightarrow> exn + string option"
  openai_chat_create :: "string \<Rightarrow> string \<Rightarrow> string \<Rightarrow> exn + string option"
  anthropic_messages_create :: "string \<Rightarrow> string \<Rightarrow> string \<times> string \<Rightarrow> exn + string option"

text \<open>\<open>def pil_to_image_bytes(pil_image, image_format='PNG')\<close>: its parameters and body.\<close>

definition pil_to_image_bytes_params :: "string list" where
  "pil_to_image_bytes_params = [''pil_image'', ''image_format'']"

definition pil_to_image_bytes :: "ai_world \<Rightarrow> image \<Rightarrow> string \<Rightarrow> exn + string" where
  "pil_to_image_bytes w pil_image image_format = pil_save w pil_image image_format"

text \<open>
  A call \<open>pil_to_image_bytes(pil_image, **kwargs)\<close> with one positional argument.
  Python binds each keyword to the parameter of that name and raises \<open>TypeError\<close> for a
  keyword that names no parameter, or one that names the parameter already given.
\<close>

definition quoted :: "string \<Rightarrow> string" where
  "quoted s = [CHR 0x27] @ s @ [CHR 0x27]"

definition call_pil_to_image_bytes ::
  "ai_world \<Rightarrow> image \<Rightarrow> (string \<times> string) list \<Rightarrow> exn + string" where
  "call_pil_to_image_bytes w pil_image kwargs =
     (case filter (\<lambda>k. k \<notin> set pil_to_image_bytes_params) (map fst kwargs) of
        k # _ \<Rightarrow>
          Inl (TypeError (''pil_to_image_bytes() got an unexpected keyword argument '' @ quoted k))
      | [] \<Rightarrow>
          if ''pil_image'' \<in> set (map fst kwargs)
          then Inl (TypeError ''pil_to_image_bytes() got multiple values for argument pil_image'')
          else pil_to_image_bytes w pil_image
                 (case map_of kwargs ''image_format'' of Some f \<Rightarrow> f | None \<Rightarrow> ''PNG''))"

definition get_mime_type_multi :: "ai_world \<Rightarrow> string \<Rightarrow> string" where
  "get_mime_type_multi w image_format_ext =
     (case guess_type w (''dummy.'' @ py_lower image_format_ext) of
        Some mime_type \<Rightarrow>
          if mime_type \<noteq> [] then mime_type
          else (let ext_upper = py_upper image_format_ext
                in if ext_upper \<in> set [''JPEG'', ''JPG''] then ''image/jpeg''
                   else if ext_upper = ''PNG'' then ''image/png''
                   else if ext_upper = ''WEBP'' then ''image/webp''
                   else if ext_upper = ''GIF'' then ''image/gif''
                   else if ext_upper \<in> set [''TIFF'', ''TIF''] then ''image/tiff''
                   else ''application/octet-stream'')
      | None \<Rightarrow>
          (let ext_upper = py_upper image_format_ext
           in if ext_upper \<in> set [''JPEG'', ''JPG''] then ''image/jpeg''
              else if ext_upper = ''PNG'' then ''image/png''
              else if ext_upper = ''WEBP'' then ''image/webp''
              else if ext_upper = ''GIF'' then ''image/gif''
              else if ext_upper \<in> set [''TIFF'', ''TIF''] then ''image/tiff''
              else ''application/octet-stream''))"

definition extract_text_gemini :: "ai_world \<Rightarrow> image \<Rightarrow> string \<Rightarrow> string" where
  "extract_text_gemini w img_pil prompt_text =
     (case gemini_generate_content w prompt_text img_pil of
        Inl e \<Rightarrow> ''Gemini API Error: '' @ exn_str e
      | Inr None \<Rightarrow> ''No text found (Gemini).''
      | Inr (Some t) \<Rightarrow> py_strip t)"

definition image_to_base64_data_uri :: "ai_world \<Rightarrow> string \<Rightarrow> string \<Rightarrow> string" where
  "image_to_base64_data_uri w image_bytes image_format_ext =
     ''data:'' @ get_mime_type_multi w image_format_ext @ '';base64,'' @ b64encode w image_bytes"

definition extract_text_openai ::
  "ai_world \<Rightarrow> string \<Rightarrow> string \<Rightarrow> string \<Rightarrow> string \<Rightarrow> string" where
  "extract_text_openai w image_bytes prompt_text model_name image_format_ext =
     (let base64_image = image_to_base64_data_uri w image_bytes image_format_ext
      in case openai_chat_create w model_name prompt_text base64_image of
           Inl e \<Rightarrow> ''OpenAI API Error: '' @ exn_str e
         | Inr None \<Rightarrow> ''No text found (OpenAI).''
         | Inr (Some t) \<Rightarrow> py_strip t)"

definition image_to_anthropic_image_source ::
  "ai_world \<Rightarrow> string \<Rightarrow> string \<Rightarrow> string \<times> string" where
  "image_to_anthropic_image_source w image_bytes image_format_ext =
     (get_mime_type_multi w image_format_ext, b64encode w image_bytes)"

definition extract_text_anthropic ::
  "ai_world \<Rightarrow> string \<Rightarrow> string \<Rightarrow> string \<Rightarrow> string \<Rightarrow> string" where
  "extract_text_anthropic w image_bytes prompt_text model_name image_format_ext =
     (let image_source = image_to_anthropic_image_source w image_bytes image_format_ext
      in case anthropic_messages_create w model_name prompt_text image_source of
           Inl e \<Rightarrow> ''Anthropic API Error: '' @ exn_str e
         | Inr None \<Rightarrow> ''No text found (Anthropic).''
         | Inr (Some t) \<Rightarrow> py_strip t)"

text \<open>The body of the page loop of \<open>process_pdf_file_with_provider\<close>: lines 144 to 152.\<close>

definition pdf_page_text ::
  "ai_world \<Rightarrow> string \<Rightarrow> string \<Rightarrow> string \<Rightarrow> string \<Rightarrow> image \<Rightarrow> exn + string" where
  "pdf_page_text w prompt provider_name model_name_for_api pdf_page_img_fmt page_pil_image =
     (if provider_name = ''gemini'' then Inr (extract_text_gemini w page_pil_image prompt)
      else if provider_name \<in> set [''openai'', ''anthropic''] then
        (case call_pil_to_image_bytes w page_pil_image [(''format'', pdf_page_img_fmt)] of
           Inl e \<Rightarrow> Inl e
         | Inr img_bytes \<Rightarrow>
             if provider_name = ''openai''
             then Inr (extract_text_openai w img_bytes prompt model_name_for_api
                         pdf_page_img_fmt)
             else if provider_name = ''anthropic''
             then Inr (extract_text_anthropic w img_bytes prompt model_name_for_api
                         pdf_page_img_fmt)
             else Inr [])
      else Inr [])"

fun pdf_provider_pages ::
  "(image \<Rightarrow> exn + string) \<Rightarrow> nat \<Rightarrow> image list \<Rightarrow> string list \<Rightarrow> exn + string list" where
  "pdf_provider_pages page_text_of i [] all_page_texts = Inr all_page_texts"
| "pdf_provider_pages page_text_of i (page_pil_image # rest) all_page_texts =
     (case page_text_of page_pil_image of
        Inl e \<Rightarrow> Inl e
      | Inr page_text \<Rightarrow>
          pdf_provider_pages page_text_of (i + 1) rest
            (all_page_texts @ [''--- Page '' @ show_nat (i + 1) @ '' ---\<newline>'' @ page_text]))"

text \<open>Lines 136 to 139: the rasterisation, with \<open>poppler_path\<close> on Windows only.\<close>

definition convert_pdf_pages ::
  "ai_world \<Rightarrow> string \<Rightarrow> string option \<Rightarrow> string \<Rightarrow> exn + image list" where
  "convert_pdf_pages w pdf_path poppler_path pdf_page_img_fmt =
     (if os_name w = ''nt'' \<and> truthy_str_opt poppler_path
      then pdf2image_convert w pdf_path poppler_path (py_lower pdf_page_img_fmt)
      else pdf2image_convert w pdf_path None (py_lower pdf_page_img_fmt))"

definition process_pdf_file_with_provider_try ::
  "ai_world \<Rightarrow> string \<Rightarrow> string \<Rightarrow> string \<Rightarrow> string \<Rightarrow> string option \<Rightarrow> exn + string" where
  "process_pdf_file_with_provider_try w pdf_path prompt provider_name model_name_for_api
       poppler_path =
     (let pdf_page_img_fmt = ''PNG'' in
      case convert_pdf_pages w pdf_path poppler_path pdf_page_img_fmt of
        Inl e \<Rightarrow> Inl e
      | Inr page_pil_images \<Rightarrow>
          if page_pil_images = [] then Inr ''Could not convert PDF to images.''
          else (case pdf_provider_pages
                       (pdf_page_text w prompt provider_name model_name_for_api pdf_page_img_fmt)
                       0 page_pil_images [] of
                  Inl e \<Rightarrow> Inl e
                | Inr all_page_texts \<Rightarrow> Inr (py_join ''\<newline>\<newline>'' all_page_texts)))"

definition process_pdf_file_with_provider ::
  "ai_world \<Rightarrow> string \<Rightarrow> string \<Rightarrow> string \<Rightarrow> string \<Rightarrow> string option \<Rightarrow> string" where
  "process_pdf_file_with_provider w pdf_path prompt provider_name model_name_for_api
       poppler_path =
     (case process_pdf_file_with_provider_try w pdf_path prompt provider_name
             model_name_for_api poppler_path of
        Inl (FileNotFoundError m) \<Rightarrow> ''Error: PDF file not found at '' @ pdf_path
      | Inl e \<Rightarrow>
          ''Error processing PDF '' @ pdf_path @ '' with '' @ provider_name @ '': '' @ exn_str e
      | Inr res \<Rightarrow> res)"

text \<open>
  Lines 301 to 311 of the main block: the one file written for a provider's text, in the
  working directory. A failed write is caught and reported.
\<close>

definition multi_output_filename :: "string \<Rightarrow> string \<Rightarrow> string \<Rightarrow> string" where
  "multi_output_filename file_path provider_name current_time_str =
     fst (os_path_splitext (os_path_basename file_path)) @ ''_'' @ provider_name
       @ ''_extracted_'' @ current_time_str @ ''.txt''"

definition multi_save_extracted ::
  "(string \<Rightarrow> exn option) \<Rightarrow> (string \<Rightarrow> file_content \<Rightarrow> exn option) \<Rightarrow> string \<Rightarrow> string
     \<Rightarrow> string \<Rightarrow> string \<Rightarrow> fs_state \<Rightarrow> fs_state" where
  "multi_save_extracted opn wrt file_path provider_name current_time_str extracted_text fs =
     fst (write_file opn wrt (multi_output_filename file_path provider_name current_time_str)
            (TextFile extracted_text) fs)"

section \<open>mtext_extractor.py\<close>

text \<open>
  The default output path, \<open>args.file.parent / auto_name\<close> (lines 78 to 81), for a file
  path as pathlib prints it, and the Markdown written to it (lines 101 to 105).
\<close>

definition mtext_auto_out :: "string \<Rightarrow> string \<Rightarrow> string" where
  "mtext_auto_out file_path stamp =
     (let auto_name = path_stem file_path @ ''_extracted_'' @ stamp @ ''.md''
      in if CHR ''/'' \<in> set file_path
         then take (length file_path - length (path_name file_path)) file_path @ auto_name
         else auto_name)"

fun mtext_markdown :: "nat \<Rightarrow> string list \<Rightarrow> string" where
  "mtext_markdown idx [] = []"
| "mtext_markdown idx (page_markdown # rest) =
     ''\<newline>\<newline><!----- Page '' @ show_nat (idx + 1) @ '' ----->\<newline>\<newline>'' @ page_markdown
       @ mtext_markdown (idx + 1) rest"

definition mtext_write ::
  "(string \<Rightarrow> exn option) \<Rightarrow> (string \<Rightarrow> file_content \<Rightarrow> exn option) \<Rightarrow> string \<Rightarrow> string
     \<Rightarrow> string list \<Rightarrow> fs_state \<Rightarrow> fs_state \<times> exn option" where
  "mtext_write opn wrt file_path stamp pages fs =
     write_file opn wrt (mtext_auto_out file_path stamp) (TextFile (mtext_markdown 0 pages)) fs"

section \<open>gdocai.py\<close>

definition SUPPORTED_MIME_TYPES :: "(string \<times> string) list" where
  "SUPPORTED_MIME_TYPES =
     [(''.pdf'', ''application/pdf''),
      (''.jpg'', ''image/jpeg''),
      (''.jpeg'', ''image/jpeg''),
      (''.tiff'', ''image/tiff''),
      (''.tif'', ''image/tiff''),
      (''.gif'', ''image/gif''),
      (''.png'', ''image/png''),
      (''.webp'', ''image/webp''),
      (''.bmp'', ''image/bmp'')]"

text \<open>
  \<open>get_mime_type\<close> of \<open>gdocai.py\<close>; \<open>guess\<close> is the first component of
  \<open>mimetypes.guess_type(file_path)\<close>, which depends on the system's table.
\<close>

definition get_mime_type :: "(string \<Rightarrow> string option) \<Rightarrow> string \<Rightarrow> string option" where
  "get_mime_type guess file_path =
     (let extension = py_lower (snd (os_path_splitext file_path))
      in case map_of SUPPORTED_MIME_TYPES extension of
           Some m \<Rightarrow> Some m
         | None \<Rightarrow>
             (case guess file_path of
                None \<Rightarrow> None
              | Some mime_type \<Rightarrow>
                  if mime_type \<noteq> []
                     \<and> takeWhile (\<lambda>c. c \<noteq> CHR ''/'') mime_type \<in> set [''image'', ''application'']
                  then Some mime_type else None))"

text \<open>
  The main block up to the call of \<open>process_document_sample\<close>: the four checks that end
  the script with \<open>exit(1)\<close>, and otherwise the file and MIME type submitted.
\<close>

datatype gdocai_run =
    ExitProjectId
  | ExitProcessorId
  | ExitFileNotFound
  | ExitMimeType
  | Submitted string string

definition gdocai_main ::
  "(string \<Rightarrow> bool) \<Rightarrow> (string \<Rightarrow> string option) \<Rightarrow> string \<Rightarrow> string \<Rightarrow> string \<Rightarrow> gdocai_run" where
  "gdocai_main path_exists guess project_id processor_id file_path =
     (if project_id = ''your-gcp-project-id'' \<or> project_id = [] then ExitProjectId
      else if processor_id = ''your-processor-id'' \<or> processor_id = [] then ExitProcessorId
      else if \<not> path_exists file_path then ExitFileNotFound
      else (case get_mime_type guess file_path of
              None \<Rightarrow> ExitMimeType
            | Some file_mime_type \<Rightarrow>
                if file_mime_type = [] then ExitMimeType
                else Submitted file_path file_mime_type))"

section \<open>Notions used to state the properties\<close>




text \<open>A text that \<open>strip()\<close> would empty.\<close>

definition blank :: "string \<Rightarrow> bool" where
  "blank s = list_all py_isspace s"

text \<open>
  The envelope as the specification words it: an object with exactly the keys \<open>pages\<close>
  (an array), \<open>source_file\<close> and \<open>method\<close>, the method being \<open>direct\<close> or
  \<open>pdf_converted_to_images\<close>.
\<close>

fun is_envelope :: "json \<Rightarrow> bool" where
  "is_envelope (JObj [(k1, JArr pages), (k2, JStr source_file), (k3, JStr m)]) =
     (k1 = ''pages'' \<and> k2 = ''source_file'' \<and> k3 = ''method''
      \<and> m \<in> set [''direct'', ''pdf_converted_to_images''])"
| "is_envelope _ = False"

section \<open>Example inputs\<close>

subsection \<open>A scripted Azure client\<close>

text \<open>
  A client whose status requests answer from a fixed script, one element per request,
  and raise once the script is used up.
\<close>

definition scripted_client :: "read_operation_result list \<Rightarrow> azure_client" where
  "scripted_client script =
     \<lparr>read_in_stream = (\<lambda>_. Inr [(''Operation-Location'', ''https://host/vision/read/analyzeResults/op-1'')]),
      get_read_result = (\<lambda>_ n. if n < length script then Inr (script ! n)
                                else Inl (Exception ''script exhausted''))\<rparr>"

definition running_result :: read_operation_result where
  "running_result =
     \<lparr>ror_status = ''running'', ror_status_str = ''OperationStatusCodes.running'',
      ror_message = None, analyze_result = None,
      ror_as_dict = [(''status'', JStr ''running'')]\<rparr>"

definition failed_result :: read_operation_result where
  "failed_result =
     \<lparr>ror_status = ''failed'', ror_status_str = ''OperationStatusCodes.failed'',
      ror_message = Some ''bad image'', analyze_result = None,
      ror_as_dict = [(''status'', JStr ''failed'')]\<rparr>"

text \<open>A result with the status \<open>succeeded\<close> that carries no \<open>analyze_result\<close>.\<close>

definition bare_succeeded_result :: read_operation_result where
  "bare_succeeded_result =
     \<lparr>ror_status = ''succeeded'', ror_status_str = ''OperationStatusCodes.succeeded'',
      ror_message = None, analyze_result = None,
      ror_as_dict = [(''status'', JStr ''succeeded'')]\<rparr>"

definition succeeded_result :: "string list list \<Rightarrow> read_operation_result" where
  "succeeded_result pages =
     \<lparr>ror_status = ''succeeded'', ror_status_str = ''OperationStatusCodes.succeeded'',
      ror_message = None,
      analyze_result = Some \<lparr>read_results = pages, ar_errors = None\<rparr>,
      ror_as_dict = [(''status'', JStr ''succeeded'')]\<rparr>"

subsection \<open>Files, PDFs and Vision clients\<close>

definition empty_fs :: fs_state where
  "empty_fs = \<lparr>files = Map.empty, opened = []\<rparr>"

text \<open>
  A world in which \<open>in/locked.pdf\<close> cannot be opened, the image \<open>in/blank.png\<close> shows
  no text, \<open>in/two.pdf\<close> has a written page and a blank one, \<open>in/three.pdf\<close> has three
  pages and every other PDF one, one output path cannot be opened for writing and the
  write into another one fails.
\<close>

definition demo_world :: world where
  "demo_world =
     \<lparr>open_rb = (\<lambda>p. if p = ''in/locked.pdf'' then Inl (PermissionError p)
                      else if p = ''in/blank.png'' then Inr ''blank'' else Inr ''bytes''),
      convert_from_path = (\<lambda>p. if p = ''in/two.pdf'' then Inr [Image ''p1'', Image ''blank'']
                                 else if p = ''in/three.pdf''
                                 then Inr [Image ''p1'', Image ''p2'', Image ''p3'']
                                 else Inr [Image ''p1'']),
      convert_pil_image_to_bytes = (\<lambda>im. case im of Image s \<Rightarrow> Inr s),
      open_w = (\<lambda>p. if p = ''out/ro_google_20250101-120000.json''
                     then Some (PermissionError ''[Errno 13] Permission denied'') else None),
      write_w = (\<lambda>p c. if p = ''out/full_google_20250101-120000.json''
                        then Some (OSError ''[Errno 28] No space left on device'') else None)\<rparr>"

definition no_failure :: "string \<Rightarrow> exn option" where
  "no_failure p = None"

definition no_write_failure :: "string \<Rightarrow> file_content \<Rightarrow> exn option" where
  "no_write_failure p c = None"

definition new_year :: datetime where
  "new_year = \<lparr>dt_year = 2025, dt_month = 1, dt_day = 1,
                dt_hour = 12, dt_minute = 0, dt_second = 0\<rparr>"

definition text_response :: "string \<Rightarrow> annotate_image_response" where
  "text_response t =
     \<lparr>resp_error_message = [], full_text_annotation = Some t, context_page_number = None,
      pb_dict = [(''fullTextAnnotation'', JObj [(''text'', JStr t)])]\<rparr>"

text \<open>What Vision answers for a page without text: a response with no field set.\<close>

definition blank_response :: annotate_image_response where
  "blank_response =
     \<lparr>resp_error_message = [], full_text_annotation = None, context_page_number = None,
      pb_dict = []\<rparr>"

definition demo_google :: google_client where
  "demo_google =
     \<lparr>document_text_detection =
        (\<lambda>b. if b = ''blank'' then Inr blank_response else Inr (text_response ''a'')),
      async_batch_annotate_files = (\<lambda>b. Inr [[text_response ''a'', blank_response]])\<rparr>"

definition failing_google :: google_client where
  "failing_google =
     \<lparr>document_text_detection = (\<lambda>b. Inl (Exception ''503 unavailable'')),
      async_batch_annotate_files = (\<lambda>b. Inl (Exception ''503 unavailable''))\<rparr>"

text \<open>
  A world for \<open>multi_extractor.py\<close> in which every PDF has two pages and every provider
  answers with the text \<open>hello\<close>.
\<close>

definition demo_ai_world :: ai_world where
  "demo_ai_world =
     \<lparr>os_name = ''posix'',
      guess_type = (\<lambda>p. None),
      b64encode = (\<lambda>b. b),
      pdf2image_convert = (\<lambda>p poppler fmt. Inr [Image ''p1'', Image ''p2'']),
      pil_save = (\<lambda>im fmt. case im of Image s \<Rightarrow> Inr s),
      gemini_generate_content = (\<lambda>prompt im. Inr (Some ''hello'')),
      openai_chat_create = (\<lambda>m prompt url. Inr (Some ''hello'')),
      anthropic_messages_create = (\<lambda>m prompt src. Inr (Some ''hello''))\<rparr>"

text \<open>A MIME table that knows \<open>.docx\<close>, as the table of a usual system does.\<close>

definition demo_guess :: "string \<Rightarrow> string option" where
  "demo_guess p =
     (if p = ''report.docx''
      then Some ''application/vnd.openxmlformats-officedocument.wordprocessingml.document''
      else None)"


section \<open>The polling adapter\<close>

lemma poll_read_result_steps:
  assumes "\<And>i. i < m \<Longrightarrow> \<exists>r. get (n + i) = Inr r \<and> in_progress (ror_status r)"
    and "get (n + m) = Inr r" and "\<not> in_progress (ror_status r)"
  shows "poll_read_result get n tr =
           Some (Inr r, tr @ concat (replicate m [StatusCheck, Sleep 2]) @ [StatusCheck])"
  using assms
proof (induction m arbitrary: n tr)
  case 0
  then show ?case
    by (subst poll_read_result.simps) simp
next
  case (Suc m)
  from Suc.prems(1)[of 0] obtain r0 where r0: "get n = Inr r0" "in_progress (ror_status r0)"
    by auto
  have step: "\<And>i. i < m \<Longrightarrow> \<exists>r. get (Suc n + i) = Inr r \<and> in_progress (ror_status r)"
    using Suc.prems(1)[of "Suc _"] by simp
  have "poll_read_result get (Suc n) (tr @ [StatusCheck, Sleep 2]) =
          Some (Inr r, (tr @ [StatusCheck, Sleep 2]) @
                       concat (replicate m [StatusCheck, Sleep 2]) @ [StatusCheck])"
    using Suc.IH[OF step] Suc.prems(2,3) by simp
  then show ?case
    using r0 by (subst poll_read_result.simps) simp
qed

lemma polling_trace_checks: "0 < k \<Longrightarrow> count_list (polling_trace k) StatusCheck = k"
proof -
  have "count_list (concat (replicate m [StatusCheck, Sleep 2])) StatusCheck = m" for m
    by (induction m) simp_all
  then show "0 < k \<Longrightarrow> count_list (polling_trace k) StatusCheck = k"
    by (simp add: polling_trace_def)
qed

lemma polling_trace_slept:
  "sum_list (map (\<lambda>e. case e of Sleep d \<Rightarrow> d | StatusCheck \<Rightarrow> 0) (polling_trace k)) = 2 * (k - 1)"
proof -
  have "sum_list (map (\<lambda>e. case e of Sleep d \<Rightarrow> d | StatusCheck \<Rightarrow> 0)
          (concat (replicate m [StatusCheck, Sleep 2]))) = 2 * m" for m
    by (induction m) simp_all
  then show ?thesis
    by (simp add: polling_trace_def)
qed

lemma azure_error_message_status:
  "sublist (ror_status_str r) (azure_error_message original_filename r)"
proof -
  let ?base = "''Azure Read API failed for '' @ original_filename @ '': '' @ ror_status_str r"
  have "\<exists>ss. azure_error_message original_filename r = ?base @ ss"
    by (simp add: azure_error_message_def Let_def split: option.splits)
  then obtain ss where "azure_error_message original_filename r =
      (''Azure Read API failed for '' @ original_filename @ '': '') @ ror_status_str r @ ss"
    by auto
  then show ?thesis
    unfolding sublist_def by blast
qed

lemma azure_error_message_message:
  assumes "ror_message r = Some m" and "m \<noteq> []"
  shows "sublist m (azure_error_message original_filename r)"
proof -
  let ?base = "''Azure Read API failed for '' @ original_filename @ '': '' @ ror_status_str r
                 @ '' - Message: ''"
  have "\<exists>ss. azure_error_message original_filename r = ?base @ m @ ss"
    using assms by (simp add: azure_error_message_def Let_def split: option.splits)
  then show ?thesis
    unfolding sublist_def by blast
qed

text \<open>
  C1, as the claim states it, fails: the script \<open>[running, running, succeeded]\<close> whose
  last answer carries no \<open>analyze_result\<close> ends after three status requests in
  \<open>(None, None)\<close>, which is neither the succeeded result nor a structured failure. Line
  165 raises \<open>AttributeError\<close> there and the handler of line 181 turns it into that pair.
\<close>

theorem succeeded_without_analyze_result:
  "ror_status bare_succeeded_result = ''succeeded''
   \<and> ocr_azure_read_stream (Some (scripted_client [running_result, running_result,
         bare_succeeded_result])) ''bytes'' ''letter.png''
       = Some ((None, None), [StatusCheck, Sleep 2, StatusCheck, Sleep 2, StatusCheck])"
proof -
  let ?c = "scripted_client [running_result, running_result, bare_succeeded_result]"
  have pending: "\<And>i. i < 2 \<Longrightarrow> \<exists>r. get_read_result ?c ''op-1'' (0 + i) = Inr r
                   \<and> in_progress (ror_status r)"
    by (auto simp add: scripted_client_def running_result_def in_progress_def less_Suc_eq
        numeral_2_eq_2 nth_Cons')
  have final: "get_read_result ?c ''op-1'' (0 + 2) = Inr bare_succeeded_result"
    by (simp add: scripted_client_def)
  have terminal: "\<not> in_progress (ror_status bare_succeeded_result)"
    by (simp add: bare_succeeded_result_def in_progress_def)
  have poll: "poll_read_result (get_read_result ?c ''op-1'') 0 [] =
                Some (Inr bare_succeeded_result,
                      [StatusCheck, Sleep 2, StatusCheck, Sleep 2, StatusCheck])"
    using poll_read_result_steps[of 2 "get_read_result ?c ''op-1''" 0 bare_succeeded_result "[]",
        OF pending final terminal]
    by (simp add: numeral_2_eq_2)
  have seg: "last_segment ''https://host/vision/read/analyzeResults/op-1'' = ''op-1''"
    by code_simp
  have location: "read_in_stream ?c ''bytes''
                    = Inr [(''Operation-Location'', ''https://host/vision/read/analyzeResults/op-1'')]"
    by (simp add: scripted_client_def)
  have "ocr_azure_read_stream (Some ?c) ''bytes'' ''letter.png''
          = Some ((None, None), [StatusCheck, Sleep 2, StatusCheck, Sleep 2, StatusCheck])"
    unfolding ocr_azure_read_stream_def ocr_azure_read_stream_try_def
    by (simp add: location seg poll azure_success_def) (simp add: bare_succeeded_result_def)
  then show ?thesis
    by (simp add: bare_succeeded_result_def)
qed

text \<open>
  C1, amended. Let the first \<open>k - 1\<close> status requests of an operation answer in progress
  (\<open>notStarted\<close> or \<open>running\<close>) and the \<open>k\<close>-th anything else. Then
  \<open>ocr_azure_read_stream\<close> returns, having issued exactly \<open>k\<close> status requests with a
  sleep of 2 between consecutive ones and none after the last (\<open>polling_trace k\<close>). On
  \<open>succeeded\<close> with an \<open>analyze_result\<close> it returns the text and \<open>as_dict()\<close> of the
  result. On \<open>succeeded\<close> without an \<open>analyze_result\<close> the \<open>try\<close> block raises
  \<open>AttributeError\<close> and the adapter returns \<open>(None, None)\<close>. On every other final
  status no exception is raised inside the \<open>try\<close> block, the text is \<open>None\<close>, and the
  value returned is the dict with the keys \<open>error\<close> and \<open>details\<close>: the error message
  holds the provider's status as printed and, when there is one, its message; the details
  are \<open>as_dict()\<close>.
\<close>

theorem azure_polling_returns:
  assumes submitted: "read_in_stream c stream = Inr headers"
    and location: "map_of headers ''Operation-Location'' = Some loc"
    and k: "0 < k"
    and pending: "\<forall>i<k - 1. \<exists>r'. get_read_result c (last_segment loc) i = Inr r'
                                  \<and> in_progress (ror_status r')"
    and final: "get_read_result c (last_segment loc) (k - 1) = Inr r"
    and terminal: "\<not> in_progress (ror_status r)"
  shows "(\<exists>res. ocr_azure_read_stream (Some c) stream original_filename
                  = Some (res, polling_trace k))
       \<and> count_list (polling_trace k) StatusCheck = k
       \<and> sum_list (map (\<lambda>e. case e of Sleep d \<Rightarrow> d | StatusCheck \<Rightarrow> 0) (polling_trace k))
           = 2 * (k - 1)
       \<and> (\<forall>ar. ror_status r = ''succeeded'' \<and> analyze_result r = Some ar \<longrightarrow>
             ocr_azure_read_stream (Some c) stream original_filename
               = Some ((Some (azure_text ar), Some (JObj (ror_as_dict r))), polling_trace k))
       \<and> (ror_status r = ''succeeded'' \<and> analyze_result r = None \<longrightarrow>
             (\<exists>m. ocr_azure_read_stream_try c stream original_filename
                     = Some (Inl (AttributeError m), polling_trace k))
           \<and> ocr_azure_read_stream (Some c) stream original_filename
               = Some ((None, None), polling_trace k))
       \<and> (ror_status r \<noteq> ''succeeded'' \<longrightarrow>
             ocr_azure_read_stream_try c stream original_filename
               = Some (Inr (azure_failure original_filename r), polling_trace k)
           \<and> ocr_azure_read_stream (Some c) stream original_filename
               = Some ((None,
                        Some (JObj [(''error'', JStr (azure_error_message original_filename r)),
                                    (''details'', JObj (ror_as_dict r))])),
                       polling_trace k)
           \<and> sublist (ror_status_str r) (azure_error_message original_filename r)
           \<and> (\<forall>m. ror_message r = Some m \<and> m \<noteq> [] \<longrightarrow>
                  sublist m (azure_error_message original_filename r)))"
proof -
  have "poll_read_result (get_read_result c (last_segment loc)) 0 [] =
          Some (Inr r, [] @ concat (replicate (k - 1) [StatusCheck, Sleep 2]) @ [StatusCheck])"
    using pending final terminal by (intro poll_read_result_steps) auto
  then have poll: "poll_read_result (get_read_result c (last_segment loc)) 0 [] =
                     Some (Inr r, polling_trace k)"
    by (simp add: polling_trace_def)
  have body: "ocr_azure_read_stream_try c stream original_filename =
                Some (if ror_status r = ''succeeded'' then azure_success r
                      else Inr (azure_failure original_filename r), polling_trace k)"
    by (simp add: ocr_azure_read_stream_try_def submitted location poll)
  have returns: "\<exists>res. ocr_azure_read_stream (Some c) stream original_filename
                    = Some (res, polling_trace k)"
    by (simp add: ocr_azure_read_stream_def body azure_success_def split: option.splits sum.splits)
  have ok: "ocr_azure_read_stream (Some c) stream original_filename
              = Some ((Some (azure_text ar), Some (JObj (ror_as_dict r))), polling_trace k)"
    if "ror_status r = ''succeeded''" "analyze_result r = Some ar" for ar
    using that by (simp add: ocr_azure_read_stream_def body azure_success_def)
  have bare: "(\<exists>m. ocr_azure_read_stream_try c stream original_filename
                     = Some (Inl (AttributeError m), polling_trace k))
              \<and> ocr_azure_read_stream (Some c) stream original_filename
                  = Some ((None, None), polling_trace k)"
    if "ror_status r = ''succeeded''" "analyze_result r = None"
    using that by (simp add: ocr_azure_read_stream_def body azure_success_def)
  have bad: "ocr_azure_read_stream (Some c) stream original_filename
               = Some ((None,
                        Some (JObj [(''error'', JStr (azure_error_message original_filename r)),
                                    (''details'', JObj (ror_as_dict r))])),
                       polling_trace k)"
    if "ror_status r \<noteq> ''succeeded''"
    using that by (simp add: ocr_azure_read_stream_def body azure_failure_def)
  show ?thesis
    using returns ok bare bad body polling_trace_checks[OF k] polling_trace_slept[of k]
      azure_error_message_status[of r original_filename]
      azure_error_message_message[of r _ original_filename]
    by auto
qed

theorem azure_polling_returns_witness:
  "ocr_azure_read_stream (Some (scripted_client [running_result, running_result,
       succeeded_result [[''Dear Sir'', ''Yours'']]])) ''bytes'' ''letter.png''
     = Some ((Some ''Dear Sir\<newline>Yours'', Some (JObj [(''status'', JStr ''succeeded'')])),
             [StatusCheck, Sleep 2, StatusCheck, Sleep 2, StatusCheck])
   \<and> ocr_azure_read_stream (Some (scripted_client [running_result, failed_result]))
       ''bytes'' ''letter.png''
     = Some ((None,
              Some (JObj [(''error'', JStr ''Azure Read API failed for letter.png: OperationStatusCodes.failed - Message: bad image''),
                          (''details'', JObj [(''status'', JStr ''failed'')])])),
             [StatusCheck, Sleep 2, StatusCheck])
   \<and> ocr_azure_read_stream (Some (scripted_client [bare_succeeded_result]))
       ''bytes'' ''letter.png''
     = Some ((None, None), [StatusCheck])"
proof -
  let ?ok = "scripted_client [running_result, running_result,
               succeeded_result [[''Dear Sir'', ''Yours'']]]"
  let ?bad = "scripted_client [running_result, failed_result]"
  let ?bare = "scripted_client [bare_succeeded_result]"
  let ?loc = "''https://host/vision/read/analyzeResults/op-1''"
  have tr3: "polling_trace 3 = [StatusCheck, Sleep 2, StatusCheck, Sleep 2, StatusCheck]"
    by (simp add: polling_trace_def numeral_3_eq_3)
  have tr2: "polling_trace 2 = [StatusCheck, Sleep 2, StatusCheck]"
    by (simp add: polling_trace_def numeral_2_eq_2)
  have tr1: "polling_trace (Suc 0) = [StatusCheck]"
    by (simp add: polling_trace_def)
  have page_txt: "azure_text \<lparr>read_results = [[''Dear Sir'', ''Yours'']], ar_errors = None\<rparr>
               = ''Dear Sir\<newline>Yours''"
    by (simp add: azure_text_def azure_page_text_def PAGE_SEP_def slice_off_end_def
        py_strip_def py_lstrip_def py_rstrip_def py_isspace_def)
  have msg: "azure_error_message ''letter.png'' failed_result
               = ''Azure Read API failed for letter.png: OperationStatusCodes.failed - Message: bad image''"
    by (simp add: azure_error_message_def Let_def failed_result_def)
  have "\<forall>i<3 - 1. \<exists>r'. get_read_result ?ok (last_segment ?loc) i = Inr r'
            \<and> in_progress (ror_status r')"
    by (simp add: scripted_client_def running_result_def in_progress_def less_Suc_eq
        numeral_2_eq_2 nth_Cons')
  from azure_polling_returns[of ?ok "''bytes''" _ _ 3 "succeeded_result [[''Dear Sir'', ''Yours'']]"
      "''letter.png''", OF _ _ _ this]
  have first: "ocr_azure_read_stream (Some ?ok) ''bytes'' ''letter.png''
     = Some ((Some ''Dear Sir\<newline>Yours'', Some (JObj [(''status'', JStr ''succeeded'')])),
             [StatusCheck, Sleep 2, StatusCheck, Sleep 2, StatusCheck])"
    by (simp add: scripted_client_def succeeded_result_def in_progress_def tr3 page_txt)
  have "\<forall>i<2 - 1. \<exists>r'. get_read_result ?bad (last_segment ?loc) i = Inr r'
            \<and> in_progress (ror_status r')"
    by (simp add: scripted_client_def running_result_def in_progress_def)
  from azure_polling_returns[of ?bad "''bytes''" _ _ 2 failed_result "''letter.png''",
      OF _ _ _ this]
  have second: "ocr_azure_read_stream (Some ?bad) ''bytes'' ''letter.png''
     = Some ((None,
              Some (JObj [(''error'', JStr ''Azure Read API failed for letter.png: OperationStatusCodes.failed - Message: bad image''),
                          (''details'', JObj [(''status'', JStr ''failed'')])])),
             [StatusCheck, Sleep 2, StatusCheck])"
    by (simp add: scripted_client_def in_progress_def tr2 msg) (simp add: failed_result_def)
  have "\<forall>i<1 - 1. \<exists>r'. get_read_result ?bare (last_segment ?loc) i = Inr r'
            \<and> in_progress (ror_status r')"
    by simp
  from azure_polling_returns[of ?bare "''bytes''" _ _ 1 bare_succeeded_result "''letter.png''",
      OF _ _ _ this]
  have third: "ocr_azure_read_stream (Some ?bare) ''bytes'' ''letter.png''
     = Some ((None, None), [StatusCheck])"
    by (simp add: scripted_client_def in_progress_def tr1) (simp add: bare_succeeded_result_def)
  from first second third show ?thesis by simp
qed

section \<open>Evaluation of the examples\<close>

lemma path_stem_examples:
  "path_stem ''in/one.pdf'' = ''one''"
  "path_stem ''in/two.pdf'' = ''two''"
  "path_stem ''in/three.pdf'' = ''three''"
  "path_stem ''in/locked.pdf'' = ''locked''"
  "path_stem ''in/scan.png'' = ''scan''"
  "path_stem ''in/blank.png'' = ''blank''"
  by code_simp+

lemma path_name_examples:
  "path_name ''in/one.pdf'' = ''one.pdf''"
  "path_name ''in/two.pdf'' = ''two.pdf''"
  "path_name ''in/three.pdf'' = ''three.pdf''"
  "path_name ''in/locked.pdf'' = ''locked.pdf''"
  "path_name ''in/scan.png'' = ''scan.png''"
  "path_name ''in/blank.png'' = ''blank.png''"
  by code_simp+

lemma file_ext_examples:
  "py_lower (path_suffix ''in/one.pdf'') = ''.pdf''"
  "py_lower (path_suffix ''in/two.pdf'') = ''.pdf''"
  "py_lower (path_suffix ''in/three.pdf'') = ''.pdf''"
  "py_lower (path_suffix ''in/locked.pdf'') = ''.pdf''"
  "py_lower (path_suffix ''in/scan.png'') = ''.png''"
  "py_lower (path_suffix ''in/blank.png'') = ''.png''"
  by code_simp+

lemma path_join_examples:
  "path_join ''out'' ''one_google_20250101-120000'' = ''out/one_google_20250101-120000''"
  "path_join ''out'' ''two_google_20250101-120000'' = ''out/two_google_20250101-120000''"
  "path_join ''out'' ''two_azure_20250101-120000'' = ''out/two_azure_20250101-120000''"
  "path_join ''out'' ''scan_google_20250101-120000'' = ''out/scan_google_20250101-120000''"
  "path_join ''out'' ''blank_google_20250101-120000'' = ''out/blank_google_20250101-120000''"
  by code_simp+

lemma strftime_stamp_new_year: "strftime_stamp new_year = ''20250101-120000''"
  by code_simp

lemmas example_defs =
  demo_world_def text_response_def blank_response_def demo_google_def failing_google_def
  empty_fs_def path_stem_examples path_name_examples file_ext_examples path_join_examples
  SUPPORTED_PDF_EXTENSION_def SUPPORTED_IMAGE_EXTENSIONS_def

lemmas process_file_defs =
  process_file_def pdf_to_images_try_def ocr_pdf_page_def ocr_google_image_bytes_def
  ocr_google_image_bytes_try_def ocr_google_pdf_def ocr_google_pdf_try_def
  merge_page_texts_def save_if_present_def save_results_def write_file_def Let_def


section \<open>The aggregator on an empty result sequence\<close>

text \<open>
  C2. The code at a forced conversion in which no page yields a result (every Vision call
  raises): the page lists stay empty, the joined text is the empty string, which is not
  \<open>None\<close>, and \<open>process_file\<close> saves an empty \<open>.txt\<close> and a \<open>.json\<close> whose \<open>pages\<close>
  array is empty, ending as a success.
\<close>

theorem forced_conversion_without_results_is_saved:
  "process_file demo_world ''20250101-120000'' ''in/one.pdf'' ''out'' ''google''
       (Some failing_google) None True empty_fs
     = Some (\<lparr>files = [''out/one_google_20250101-120000.txt'' \<mapsto> TextFile [],
                        ''out/one_google_20250101-120000.json'' \<mapsto>
                          JsonFile (JObj [(''pages'', JArr []),
                                          (''source_file'', JStr ''one.pdf''),
                                          (''method'', JStr ''pdf_converted_to_images'')])],
               opened = [''out/one_google_20250101-120000.txt'',
                         ''out/one_google_20250101-120000.json'']\<rparr>,
             Inr Saved)"
  by (simp add: process_file_defs example_defs trim_page_break_def)


section \<open>Errors at the file boundary\<close>

text \<open>
  C5. The code at a PDF that cannot be opened, submitted directly to Azure: the
  \<open>open\<close> of line 211 stands outside every \<open>try\<close>, so its exception leaves
  \<open>process_file\<close> and the loop of \<open>main\<close>; the image that follows in the list is never
  processed and nothing is written.
\<close>

theorem unreadable_pdf_aborts_the_run:
  "process_file demo_world ''20250101-120000'' ''in/locked.pdf'' ''out'' ''azure'' None
       (Some (scripted_client [succeeded_result [[''a'']]])) False empty_fs
     = Some (empty_fs, Inl (PermissionError ''in/locked.pdf''))
   \<and> process_files demo_world (\<lambda>i. ''20250101-120000'') 0 [''in/locked.pdf'', ''in/scan.png'']
       ''out'' ''azure'' None (Some (scripted_client [succeeded_result [[''a'']]])) False empty_fs
     = Some (empty_fs, Inl (PermissionError ''in/locked.pdf''))"
  by (simp add: process_file_defs example_defs)


section \<open>PDFs in \<open>multi_extractor.py\<close>\<close>

lemma call_pil_to_image_bytes_format:
  "call_pil_to_image_bytes w pil_image [(''format'', fmt)] =
     Inl (TypeError (''pil_to_image_bytes() got an unexpected keyword argument '' @ quoted ''format''))"
  by (simp add: call_pil_to_image_bytes_def pil_to_image_bytes_params_def)

lemma pdf_page_text_not_gemini:
  assumes "provider_name \<noteq> ''gemini''"
  shows "pdf_page_text w prompt provider_name model_name fmt page =
           (if provider_name \<in> set [''openai'', ''anthropic'']
            then Inl (TypeError (''pil_to_image_bytes() got an unexpected keyword argument ''
                                 @ quoted ''format''))
            else Inr [])"
  using assms by (simp add: pdf_page_text_def call_pil_to_image_bytes_format)

lemma pdf_provider_pages_cong:
  assumes "\<And>page. f page = g page"
  shows "pdf_provider_pages f i pages acc = pdf_provider_pages g i pages acc"
  using assms by (induction pages arbitrary: i acc) (simp_all split: sum.splits)

lemma pdf_provider_pages_raises:
  assumes "pages \<noteq> []" and "\<And>page. f page = Inl e"
  shows "pdf_provider_pages f i pages acc = Inl e"
  using assms by (cases pages) simp_all

text \<open>
  C9. For \<open>openai\<close> and \<open>anthropic\<close>, a PDF that rasterises to at least one page makes
  \<open>process_pdf_file_with_provider\<close> return the error string of its \<open>except Exception\<close>
  handler, with the \<open>TypeError\<close> of the call \<open>pil_to_image_bytes(..., format=...)\<close>,
  whatever the providers would answer. For every provider name other than \<open>gemini\<close> the
  result does not depend on what any provider call returns, so only \<open>gemini\<close> can return
  extracted text.
\<close>

theorem pdf_text_only_from_gemini:
  "(provider_name \<in> set [''openai'', ''anthropic'']
      \<and> convert_pdf_pages w pdf_path poppler_path ''PNG'' = Inr page_pil_images
      \<and> page_pil_images \<noteq> [] \<longrightarrow>
      process_pdf_file_with_provider w pdf_path prompt provider_name model_name poppler_path
        = ''Error processing PDF '' @ pdf_path @ '' with '' @ provider_name
            @ '': pil_to_image_bytes() got an unexpected keyword argument '' @ quoted ''format'')
   \<and> (provider_name \<noteq> ''gemini'' \<longrightarrow>
      process_pdf_file_with_provider
          (w\<lparr>gemini_generate_content := gemini, openai_chat_create := openai,
             anthropic_messages_create := anthropic\<rparr>)
          pdf_path prompt provider_name model_name poppler_path
        = process_pdf_file_with_provider w pdf_path prompt provider_name model_name poppler_path)"
proof (intro conjI impI)
  assume a: "provider_name \<in> set [''openai'', ''anthropic'']
      \<and> convert_pdf_pages w pdf_path poppler_path ''PNG'' = Inr page_pil_images
      \<and> page_pil_images \<noteq> []"
  then have ng: "provider_name \<noteq> ''gemini''" by auto
  have "pdf_provider_pages (pdf_page_text w prompt provider_name model_name ''PNG'') 0
          page_pil_images []
        = Inl (TypeError (''pil_to_image_bytes() got an unexpected keyword argument ''
                          @ quoted ''format''))"
    using a by (intro pdf_provider_pages_raises) (simp_all add: pdf_page_text_not_gemini[OF ng])
  then show "process_pdf_file_with_provider w pdf_path prompt provider_name model_name poppler_path
        = ''Error processing PDF '' @ pdf_path @ '' with '' @ provider_name
            @ '': pil_to_image_bytes() got an unexpected keyword argument '' @ quoted ''format''"
    using a by (simp add: process_pdf_file_with_provider_def
        process_pdf_file_with_provider_try_def)
next
  assume ng: "provider_name \<noteq> ''gemini''"
  let ?w = "w\<lparr>gemini_generate_content := gemini, openai_chat_create := openai,
               anthropic_messages_create := anthropic\<rparr>"
  have conv: "convert_pdf_pages ?w pdf_path poppler_path fmt
                = convert_pdf_pages w pdf_path poppler_path fmt" for fmt
    by (simp add: convert_pdf_pages_def)
  have pages: "pdf_provider_pages (pdf_page_text ?w prompt provider_name model_name fmt) i ps acc
                 = pdf_provider_pages (pdf_page_text w prompt provider_name model_name fmt) i ps acc"
    for fmt i ps acc
    by (rule pdf_provider_pages_cong) (simp only: pdf_page_text_not_gemini[OF ng])
  show "process_pdf_file_with_provider ?w pdf_path prompt provider_name model_name poppler_path
        = process_pdf_file_with_provider w pdf_path prompt provider_name model_name poppler_path"
    by (simp only: process_pdf_file_with_provider_def process_pdf_file_with_provider_try_def
        conv pages)
qed

theorem pdf_text_only_from_gemini_witness:
  "process_pdf_file_with_provider demo_ai_world ''scan.pdf'' ''Extract all text'' ''openai''
       ''gpt-4o'' None
     = ''Error processing PDF scan.pdf with openai: pil_to_image_bytes() got an unexpected keyword argument ''
         @ quoted ''format''
   \<and> process_pdf_file_with_provider
       (demo_ai_world\<lparr>gemini_generate_content := (\<lambda>p i. Inl (Exception ''down'')),
                       openai_chat_create := (\<lambda>m p u. Inr None),
                       anthropic_messages_create := (\<lambda>m p s. Inr None)\<rparr>)
       ''scan.pdf'' ''Extract all text'' ''anthropic'' ''claude'' None
     = process_pdf_file_with_provider demo_ai_world ''scan.pdf'' ''Extract all text''
         ''anthropic'' ''claude'' None"
  using pdf_text_only_from_gemini[where provider_name = "''openai''" and w = demo_ai_world
      and pdf_path = "''scan.pdf''" and poppler_path = None
      and page_pil_images = "[Image ''p1'', Image ''p2'']" and prompt = "''Extract all text''"
      and model_name = "''gpt-4o''"]
    pdf_text_only_from_gemini[where provider_name = "''anthropic''" and w = demo_ai_world
      and pdf_path = "''scan.pdf''" and poppler_path = None
      and page_pil_images = "[Image ''p1'', Image ''p2'']" and prompt = "''Extract all text''"
      and model_name = "''claude''" and gemini = "\<lambda>p i. Inl (Exception ''down'')"
      and openai = "\<lambda>m p u. Inr None" and anthropic = "\<lambda>m p s. Inr None"]
  by (simp add: convert_pdf_pages_def demo_ai_world_def)


section \<open>The MIME type fallback of \<open>gdocai.py\<close>\<close>

lemma supported_mime_type_nonempty:
  "map_of SUPPORTED_MIME_TYPES ext = Some m \<Longrightarrow> m \<noteq> []"
  by (auto simp: SUPPORTED_MIME_TYPES_def split: if_splits)

lemma get_mime_type_nonempty: "get_mime_type guess file_path \<noteq> Some []"
  by (auto simp: get_mime_type_def Let_def dest: supported_mime_type_nonempty
      split: option.splits if_splits)

text \<open>
  C10. A file whose extension is not in \<open>SUPPORTED_MIME_TYPES\<close> but for which the
  system's table gives an \<open>image/...\<close> or \<open>application/...\<close> type gets that type from
  \<open>get_mime_type\<close>, and the script (its identifiers set and the file present) goes on to
  submit it. The script ends at the MIME check exactly when the earlier checks pass and
  \<open>get_mime_type\<close> gives \<open>None\<close>, which is exactly when the extension is not in the table
  and the fallback yields nothing acceptable.
\<close>

theorem gdocai_fallback_accepts_unlisted:
  "(map_of SUPPORTED_MIME_TYPES (py_lower (snd (os_path_splitext file_path))) = None
      \<and> guess file_path = Some m \<and> m \<noteq> []
      \<and> takeWhile (\<lambda>c. c \<noteq> CHR ''/'') m \<in> set [''image'', ''application''] \<longrightarrow>
      get_mime_type guess file_path = Some m
      \<and> (project_id \<noteq> ''your-gcp-project-id'' \<and> project_id \<noteq> []
           \<and> processor_id \<noteq> ''your-processor-id'' \<and> processor_id \<noteq> []
           \<and> path_exists file_path \<longrightarrow>
         gdocai_main path_exists guess project_id processor_id file_path
           = Submitted file_path m))
   \<and> (gdocai_main path_exists guess project_id processor_id file_path = ExitMimeType
        \<longleftrightarrow> project_id \<noteq> ''your-gcp-project-id'' \<and> project_id \<noteq> []
           \<and> processor_id \<noteq> ''your-processor-id'' \<and> processor_id \<noteq> []
           \<and> path_exists file_path \<and> get_mime_type guess file_path = None)
   \<and> (get_mime_type guess file_path = None
        \<longleftrightarrow> map_of SUPPORTED_MIME_TYPES (py_lower (snd (os_path_splitext file_path))) = None
           \<and> (case guess file_path of
                 None \<Rightarrow> True
               | Some t \<Rightarrow> t = [] \<or> takeWhile (\<lambda>c. c \<noteq> CHR ''/'') t
                                      \<notin> set [''image'', ''application'']))"
proof -
  have main: "gdocai_main path_exists guess project_id processor_id file_path = ExitMimeType
        \<longleftrightarrow> project_id \<noteq> ''your-gcp-project-id'' \<and> project_id \<noteq> []
           \<and> processor_id \<noteq> ''your-processor-id'' \<and> processor_id \<noteq> []
           \<and> path_exists file_path \<and> get_mime_type guess file_path = None"
    using get_mime_type_nonempty[of guess file_path]
    by (cases "get_mime_type guess file_path") (simp_all add: gdocai_main_def)
  have none: "get_mime_type guess file_path = None
        \<longleftrightarrow> map_of SUPPORTED_MIME_TYPES (py_lower (snd (os_path_splitext file_path))) = None
           \<and> (case guess file_path of
                 None \<Rightarrow> True
               | Some t \<Rightarrow> t = [] \<or> takeWhile (\<lambda>c. c \<noteq> CHR ''/'') t
                                      \<notin> set [''image'', ''application''])"
    by (simp add: get_mime_type_def Let_def split: option.splits)
  have some: "get_mime_type guess file_path = Some m"
    if "map_of SUPPORTED_MIME_TYPES (py_lower (snd (os_path_splitext file_path))) = None"
      "guess file_path = Some m" "m \<noteq> []"
      "takeWhile (\<lambda>c. c \<noteq> CHR ''/'') m \<in> set [''image'', ''application'']"
    using that by (simp add: get_mime_type_def Let_def)
  have sub: "gdocai_main path_exists guess project_id processor_id file_path
           = Submitted file_path m"
    if "get_mime_type guess file_path = Some m" "m \<noteq> []"
      "project_id \<noteq> ''your-gcp-project-id''" "project_id \<noteq> []"
      "processor_id \<noteq> ''your-processor-id''" "processor_id \<noteq> []" "path_exists file_path"
    using that by (simp add: gdocai_main_def)
  show ?thesis
    using main none some sub by blast
qed

lemma docx_extension: "py_lower (snd (os_path_splitext ''report.docx'')) = ''.docx''"
  by code_simp

theorem gdocai_fallback_accepts_unlisted_witness:
  "get_mime_type demo_guess ''report.docx''
     = Some ''application/vnd.openxmlformats-officedocument.wordprocessingml.document''
   \<and> gdocai_main (\<lambda>p. True) demo_guess ''superb-run'' ''a00897'' ''report.docx''
     = Submitted ''report.docx''
         ''application/vnd.openxmlformats-officedocument.wordprocessingml.document''
   \<and> gdocai_main (\<lambda>p. True) demo_guess ''superb-run'' ''a00897'' ''notes.xyz'' = ExitMimeType"
proof -
  have xyz: "get_mime_type demo_guess ''notes.xyz'' = None"
    by code_simp
  show ?thesis
    using gdocai_fallback_accepts_unlisted[where file_path = "''report.docx''"
        and guess = demo_guess
        and m = "''application/vnd.openxmlformats-officedocument.wordprocessingml.document''"
        and project_id = "''superb-run''" and processor_id = "''a00897''"
        and path_exists = "\<lambda>p. True"]
      gdocai_fallback_accepts_unlisted[where file_path = "''notes.xyz''" and guess = demo_guess
        and project_id = "''superb-run''" and processor_id = "''a00897''"
        and path_exists = "\<lambda>p. True"] xyz
    by (simp add: docx_extension SUPPORTED_MIME_TYPES_def demo_guess_def)
qed


section \<open>Counting page breaks\<close>




















section \<open>The page loop of the forced conversion\<close>










end
